theory Spec2Isabelle
  imports Main
begin

section \<open>Python values, exceptions and the engine's storage\<close>

text \<open>
  A shallow embedding of \<^verbatim>\<open>theano/tensor/io.py\<close>: the disk loader \<^verbatim>\<open>LoadFromDisk\<close>
  and the four MPI operations. Every \<^verbatim>\<open>raise\<close> of the source, and every exception
  a Python primitive raises on the way (an index out of range, an unbound global name,
  a missing attribute), is a value of \<open>exn\<close>.
\<close>

datatype exn =
    ValueError
  | TypeError
  | NameError
  | AttributeError
  | IndexError
  | IOError
  | OtherError string

text \<open>
  A numpy element type after \<^verbatim>\<open>numpy.dtype(...)\<close>: the canonical name of the type.
  The identifier a caller passes (\<^verbatim>\<open>"float64"\<close>, \<^verbatim>\<open>"f8"\<close>, \<^verbatim>\<open>"d"\<close>) is a Python string.
\<close>

datatype np_dtype = Dtype string

text \<open>
  An array is a reference: its element type and shape, and the address of its buffer in
  the outside world (a buffer handed to a non-blocking receive is filled in place later).
\<close>

record ndarray =
  dtype :: np_dtype
  shape :: "int list"
  addr :: nat

datatype pyval =
    PyNone
  | PyBool bool
  | PyInt int
  | PyStr string
  | PyList "pyval list"
  | PyTuple "pyval list"
  | PyDtype np_dtype
  | PyFunction string
  | NDArray ndarray
  | Request nat

text \<open>
  The output storage a compute step writes: a Python list with one cell per output of
  the node, each cell itself a Python list (\<^verbatim>\<open>out[0][0] = result\<close>).
\<close>

type_synonym storage = "pyval list list"

text \<open>\<^verbatim>\<open>xs[i]\<close> and \<^verbatim>\<open>xs[i] = v\<close> for a literal index \<open>i \<ge> 0\<close>: out of range raises.\<close>

definition list_getitem :: "'a list \<Rightarrow> nat \<Rightarrow> exn + 'a" where
  "list_getitem xs i = (if i < length xs then Inr (xs ! i) else Inl IndexError)"

definition list_setitem :: "'a list \<Rightarrow> nat \<Rightarrow> 'a \<Rightarrow> exn + 'a list" where
  "list_setitem xs i v = (if i < length xs then Inr (xs[i := v]) else Inl IndexError)"

text \<open>\<^verbatim>\<open>out[i][j] = v\<close>: read the cell \<^verbatim>\<open>out[i]\<close>, then assign its slot \<open>j\<close>.\<close>

definition storage_setitem :: "storage \<Rightarrow> nat \<Rightarrow> nat \<Rightarrow> pyval \<Rightarrow> exn + storage" where
  "storage_setitem out i j v =
     (case list_getitem out i of
        Inl e \<Rightarrow> Inl e
      | Inr cell \<Rightarrow>
          (case list_setitem cell j v of
             Inl e \<Rightarrow> Inl e
           | Inr cell' \<Rightarrow> Inr (out[i := cell'])))"

text \<open>
  \<^verbatim>\<open>s.split(c)\<close> for a one-character separator: the pieces between the separators,
  never an empty list. \<open>cur\<close> holds the current piece, reversed.
\<close>

fun str_split_acc :: "char \<Rightarrow> string \<Rightarrow> string \<Rightarrow> string list" where
  "str_split_acc c cur [] = [rev cur]"
| "str_split_acc c cur (x # xs) =
     (if x = c then rev cur # str_split_acc c [] xs else str_split_acc c (x # cur) xs)"

definition str_split :: "string \<Rightarrow> char \<Rightarrow> string list" where
  "str_split s c = str_split_acc c [] s"

text \<open>\<^verbatim>\<open>xs[-1]\<close>: the last element, an error on the empty list.\<close>

definition list_last :: "'a list \<Rightarrow> exn + 'a" where
  "list_last xs = (if xs = [] then Inl IndexError else Inr (last xs))"

text \<open>\<^verbatim>\<open>result.dtype\<close>: only an array has the attribute.\<close>

definition py_dtype :: "pyval \<Rightarrow> exn + np_dtype" where
  "py_dtype v = (case v of NDArray a \<Rightarrow> Inr (dtype a) | _ \<Rightarrow> Inl AttributeError)"

section \<open>The module's globals and its external collaborators\<close>

text \<open>
  numpy, the MPI binding and the engine are not part of the module; what the module
  calls of them is a field of the environment \<open>'w env\<close>, where \<open>'w\<close> is the state of
  the outside world (file system, array buffers, requests in flight). Each call returns
  an exception or its result with the new world.

  \<open>comm\<close> is the module-level name \<^verbatim>\<open>comm\<close>: \<open>None\<close> when the name is unbound.
\<close>

record 'w Intracomm =
  Isend :: "'w \<Rightarrow> pyval \<Rightarrow> int \<Rightarrow> int \<Rightarrow> exn + (pyval \<times> 'w)"
  Irecv :: "'w \<Rightarrow> pyval \<Rightarrow> int \<Rightarrow> int \<Rightarrow> exn + (pyval \<times> 'w)"

record 'w env =
  numpy_dtype :: "string \<Rightarrow> exn + np_dtype"
  numpy_load :: "'w \<Rightarrow> string \<Rightarrow> string option \<Rightarrow> exn + (pyval \<times> 'w)"
  numpy_empty :: "'w \<Rightarrow> int list \<Rightarrow> np_dtype \<Rightarrow> exn + (ndarray \<times> 'w)"
  ndarray_getitem :: "'w \<Rightarrow> ndarray \<Rightarrow> nat \<Rightarrow> exn + pyval"
  Request_wait :: "'w \<Rightarrow> nat \<Rightarrow> exn + 'w"
  comm :: "'w Intracomm option"
  mpi_enabled :: bool

text \<open>
  Module start-up (lines 85-90):
  \<^verbatim>\<open>try: from mpi4py import MPI; comm = MPI.COMM_WORLD; mpi_enabled = True\<close>
  \<^verbatim>\<open>except: mpi_enabled = False\<close>.
  The argument is the outcome of the import: the communicator, or the exception.
\<close>

definition import_mpi :: "exn + 'w Intracomm \<Rightarrow> 'w env \<Rightarrow> 'w env" where
  "import_mpi r g =
     (case r of
        Inr c \<Rightarrow> g\<lparr>comm := Some c, mpi_enabled := True\<rparr>
      | Inl e \<Rightarrow> g\<lparr>comm := None, mpi_enabled := False\<rparr>)"

text \<open>
  \<^verbatim>\<open>v[i]\<close> on a value: a list or tuple is indexed, an array is indexed by numpy, a
  string gives its character; \<^verbatim>\<open>None\<close>, a boolean, an integer, a function and a
  request are not subscriptable.
\<close>

definition py_getitem :: "'w env \<Rightarrow> 'w \<Rightarrow> pyval \<Rightarrow> nat \<Rightarrow> exn + pyval" where
  "py_getitem g w v i =
     (case v of
        PyList xs \<Rightarrow> list_getitem xs i
      | PyTuple xs \<Rightarrow> list_getitem xs i
      | NDArray a \<Rightarrow> ndarray_getitem g w a i
      | PyStr s \<Rightarrow> (case list_getitem s i of Inl e \<Rightarrow> Inl e | Inr ch \<Rightarrow> Inr (PyStr [ch]))
      | _ \<Rightarrow> Inl TypeError)"

text \<open>\<^verbatim>\<open>inp[i][j]\<close>.\<close>

definition inp_getitem :: "'w env \<Rightarrow> 'w \<Rightarrow> pyval list \<Rightarrow> nat \<Rightarrow> nat \<Rightarrow> exn + pyval" where
  "inp_getitem g w inp i j =
     (case list_getitem inp i of Inl e \<Rightarrow> Inl e | Inr v \<Rightarrow> py_getitem g w v j)"

text \<open>\<^verbatim>\<open>request.wait()\<close>: only a request has the method.\<close>

definition py_wait :: "'w env \<Rightarrow> 'w \<Rightarrow> pyval \<Rightarrow> exn + 'w" where
  "py_wait g w v = (case v of Request r \<Rightarrow> Request_wait g w r | _ \<Rightarrow> Inl AttributeError)"

section \<open>LoadFromDisk\<close>

text \<open>
  The attributes \<^verbatim>\<open>__init__\<close> binds. \<open>info\<close> is \<^verbatim>\<open>_info\<close>: the constructor's arguments
  as they were given, the element type still the identifier and not the canonical type.
\<close>

record LoadFromDisk =
  dtype :: np_dtype
  broadcastable :: "bool list"
  mmap_mode :: "string option"
  info :: "string \<times> bool list \<times> string option"

text \<open>
  \<^verbatim>\<open>__init__(self, dtype, broadcastable, mmap_mode=None)\<close>. \<^verbatim>\<open>numpy.dtype(dtype)\<close>
  runs first and raises on an identifier numpy does not know; then the mmap mode is
  checked against \<^verbatim>\<open>(None, 'c')\<close>.
\<close>

definition LoadFromDisk_init ::
  "'w env \<Rightarrow> string \<Rightarrow> bool list \<Rightarrow> string option \<Rightarrow> exn + LoadFromDisk" where
  "LoadFromDisk_init g dtype_arg broadcastable_arg mmap_mode_arg =
     (case numpy_dtype g dtype_arg of
        Inl e \<Rightarrow> Inl e
      | Inr dt \<Rightarrow>
          if mmap_mode_arg \<notin> set [None, Some ''c''] then Inl ValueError
          else Inr \<lparr>dtype = dt, broadcastable = broadcastable_arg,
                    mmap_mode = mmap_mode_arg,
                    info = (dtype_arg, broadcastable_arg, mmap_mode_arg)\<rparr>)"

text \<open>
  \<^verbatim>\<open>perform(self, node, inp, out)\<close>; \<^verbatim>\<open>node\<close> is not used. The result is the exception
  raised, if any, the output storage as the step leaves it, and the world. A path that
  is not a string has no \<^verbatim>\<open>split\<close> method.
\<close>

definition LoadFromDisk_perform ::
  "'w env \<Rightarrow> LoadFromDisk \<Rightarrow> pyval list \<Rightarrow> storage \<Rightarrow> 'w \<Rightarrow> exn option \<times> storage \<times> 'w" where
  "LoadFromDisk_perform g self inp out w =
     (case list_getitem inp 0 of
        Inl e \<Rightarrow> (Some e, out, w)
      | Inr (PyStr path) \<Rightarrow>
          (case list_last (str_split path CHR ''.'') of
             Inl e \<Rightarrow> (Some e, out, w)
           | Inr ext \<Rightarrow>
               if ext = ''npz'' then (Some ValueError, out, w)
               else
                 (case numpy_load g w path (mmap_mode self) of
                    Inl e \<Rightarrow> (Some e, out, w)
                  | Inr (result, w') \<Rightarrow>
                      (case py_dtype result of
                         Inl e \<Rightarrow> (Some e, out, w')
                       | Inr dt \<Rightarrow>
                           if dt \<noteq> dtype self then (Some TypeError, out, w')
                           else
                             (case storage_setitem out 0 0 result of
                                Inl e \<Rightarrow> (Some e, out, w')
                              | Inr out' \<Rightarrow> (None, out', w')))))
      | Inr _ \<Rightarrow> (Some AttributeError, out, w))"

section \<open>The MPI operations\<close>

text \<open>
  \<^verbatim>\<open>MPIRecv.__init__(self, rank, tag, dtype, shape)\<close>. \<open>info\<close> is \<^verbatim>\<open>_info\<close>, again the
  arguments as given. \<^verbatim>\<open>(False,)*len(shape)\<close> is \<open>replicate (length shape) False\<close>.
\<close>

record MPIRecv =
  rank :: int
  tag :: int
  shape :: "int list"
  dtype :: np_dtype
  broadcastable :: "bool list"
  info :: "int \<times> int \<times> string \<times> int list"

definition MPIRecv_init ::
  "'w env \<Rightarrow> int \<Rightarrow> int \<Rightarrow> string \<Rightarrow> int list \<Rightarrow> exn + MPIRecv" where
  "MPIRecv_init g rank_arg tag_arg dtype_arg shape_arg =
     (case numpy_dtype g dtype_arg of
        Inl e \<Rightarrow> Inl e
      | Inr dt \<Rightarrow>
          Inr \<lparr>rank = rank_arg, tag = tag_arg, shape = shape_arg, dtype = dt,
               broadcastable = replicate (length shape_arg) False,
               info = (rank_arg, tag_arg, dtype_arg, shape_arg)\<rparr>)"

text \<open>
  \<^verbatim>\<open>MPIRecv.perform\<close>: allocate the buffer, look up the global \<^verbatim>\<open>comm\<close> (a NameError when
  it is unbound), post the receive, then \<^verbatim>\<open>out[0][0] = request\<close> and
  \<^verbatim>\<open>out[0][1] = data\<close>: both writes go to the cell of the first output.
\<close>

definition MPIRecv_perform ::
  "'w env \<Rightarrow> MPIRecv \<Rightarrow> pyval list \<Rightarrow> storage \<Rightarrow> 'w \<Rightarrow> exn option \<times> storage \<times> 'w" where
  "MPIRecv_perform g self inp out w =
     (case numpy_empty g w (shape self) (dtype self) of
        Inl e \<Rightarrow> (Some e, out, w)
      | Inr (data, w1) \<Rightarrow>
          (case comm g of
             None \<Rightarrow> (Some NameError, out, w1)
           | Some c \<Rightarrow>
               (case Irecv c w1 (NDArray data) (rank self) (tag self) of
                  Inl e \<Rightarrow> (Some e, out, w1)
                | Inr (request, w2) \<Rightarrow>
                    (case storage_setitem out 0 0 request of
                       Inl e \<Rightarrow> (Some e, out, w2)
                     | Inr out1 \<Rightarrow>
                         (case storage_setitem out1 0 1 (NDArray data) of
                            Inl e \<Rightarrow> (Some e, out1, w2)
                          | Inr out2 \<Rightarrow> (None, out2, w2))))))"

text \<open>
  \<^verbatim>\<open>MPIRecvWait.perform\<close>: \<^verbatim>\<open>request = inp[0][0]\<close>, \<^verbatim>\<open>data = inp[0][1]\<close>,
  \<^verbatim>\<open>request.wait()\<close>, \<^verbatim>\<open>out[0][0] = data\<close>. The instance has no attribute.
\<close>

definition MPIRecvWait_perform ::
  "'w env \<Rightarrow> pyval list \<Rightarrow> storage \<Rightarrow> 'w \<Rightarrow> exn option \<times> storage \<times> 'w" where
  "MPIRecvWait_perform g inp out w =
     (case inp_getitem g w inp 0 0 of
        Inl e \<Rightarrow> (Some e, out, w)
      | Inr request \<Rightarrow>
          (case inp_getitem g w inp 0 1 of
             Inl e \<Rightarrow> (Some e, out, w)
           | Inr data \<Rightarrow>
               (case py_wait g w request of
                  Inl e \<Rightarrow> (Some e, out, w)
                | Inr w1 \<Rightarrow>
                    (case storage_setitem out 0 0 data of
                       Inl e \<Rightarrow> (Some e, out, w1)
                     | Inr out1 \<Rightarrow> (None, out1, w1)))))"

text \<open>\<^verbatim>\<open>MPISend.__init__(self, rank, tag)\<close>: no check, no failure.\<close>

record MPISend =
  rank :: int
  tag :: int
  info :: "int \<times> int"

definition MPISend_init :: "int \<Rightarrow> int \<Rightarrow> MPISend" where
  "MPISend_init rank_arg tag_arg =
     \<lparr>rank = rank_arg, tag = tag_arg, info = (rank_arg, tag_arg)\<rparr>"

text \<open>
  \<^verbatim>\<open>MPISend.perform\<close>: \<^verbatim>\<open>data = inp[0][0]\<close>, the global \<^verbatim>\<open>comm\<close>, the non-blocking send,
  \<^verbatim>\<open>out[0][0] = request\<close>.
\<close>

definition MPISend_perform ::
  "'w env \<Rightarrow> MPISend \<Rightarrow> pyval list \<Rightarrow> storage \<Rightarrow> 'w \<Rightarrow> exn option \<times> storage \<times> 'w" where
  "MPISend_perform g self inp out w =
     (case inp_getitem g w inp 0 0 of
        Inl e \<Rightarrow> (Some e, out, w)
      | Inr data \<Rightarrow>
          (case comm g of
             None \<Rightarrow> (Some NameError, out, w)
           | Some c \<Rightarrow>
               (case Isend c w data (rank self) (tag self) of
                  Inl e \<Rightarrow> (Some e, out, w)
                | Inr (request, w1) \<Rightarrow>
                    (case storage_setitem out 0 0 request of
                       Inl e \<Rightarrow> (Some e, out, w1)
                     | Inr out1 \<Rightarrow> (None, out1, w1)))))"

text \<open>
  \<^verbatim>\<open>MPISendWait.perform\<close>: \<^verbatim>\<open>request = inp[0][0]\<close>, \<^verbatim>\<open>request.wait()\<close>,
  \<^verbatim>\<open>out[0][0] = True\<close>.
\<close>

definition MPISendWait_perform ::
  "'w env \<Rightarrow> pyval list \<Rightarrow> storage \<Rightarrow> 'w \<Rightarrow> exn option \<times> storage \<times> 'w" where
  "MPISendWait_perform g inp out w =
     (case inp_getitem g w inp 0 0 of
        Inl e \<Rightarrow> (Some e, out, w)
      | Inr request \<Rightarrow>
          (case py_wait g w request of
             Inl e \<Rightarrow> (Some e, out, w)
           | Inr w1 \<Rightarrow>
               (case storage_setitem out 0 0 (PyBool True) of
                  Inl e \<Rightarrow> (Some e, out, w1)
                | Inr out1 \<Rightarrow> (None, out1, w1))))"

section \<open>Instances, classes, equality and hashing\<close>

text \<open>An instance of one of the five classes of the module, and \<^verbatim>\<open>type(x)\<close>.\<close>

datatype Op =
    OpLoadFromDisk LoadFromDisk
  | OpMPIRecv MPIRecv
  | OpMPIRecvWait
  | OpMPISend MPISend
  | OpMPISendWait

datatype py_class =
    LoadFromDisk_class
  | MPIRecv_class
  | MPIRecvWait_class
  | MPISend_class
  | MPISendWait_class

fun type_of :: "Op \<Rightarrow> py_class" where
  "type_of (OpLoadFromDisk x) = LoadFromDisk_class"
| "type_of (OpMPIRecv x) = MPIRecv_class"
| "type_of OpMPIRecvWait = MPIRecvWait_class"
| "type_of (OpMPISend x) = MPISend_class"
| "type_of OpMPISendWait = MPISendWait_class"

text \<open>
  \<^verbatim>\<open>__eq__\<close>: \<^verbatim>\<open>type(self) == type(other) and self._info == other._info\<close>. The second
  operand is evaluated only when the classes agree, so \<^verbatim>\<open>other._info\<close> is a tuple of
  the same class.
\<close>

definition LoadFromDisk_eq :: "LoadFromDisk \<Rightarrow> Op \<Rightarrow> bool" where
  "LoadFromDisk_eq self other =
     (if type_of (OpLoadFromDisk self) \<noteq> type_of other then False
      else (case other of
              OpLoadFromDisk x \<Rightarrow> LoadFromDisk.info self = LoadFromDisk.info x
            | _ \<Rightarrow> False))"

definition MPIRecv_eq :: "MPIRecv \<Rightarrow> Op \<Rightarrow> bool" where
  "MPIRecv_eq self other =
     (if type_of (OpMPIRecv self) \<noteq> type_of other then False
      else (case other of
              OpMPIRecv x \<Rightarrow> MPIRecv.info self = MPIRecv.info x
            | _ \<Rightarrow> False))"

definition MPISend_eq :: "MPISend \<Rightarrow> Op \<Rightarrow> bool" where
  "MPISend_eq self other =
     (if type_of (OpMPISend self) \<noteq> type_of other then False
      else (case other of
              OpMPISend x \<Rightarrow> MPISend.info self = MPISend.info x
            | _ \<Rightarrow> False))"

text \<open>The wait operations: \<^verbatim>\<open>return type(self) == type(other)\<close>.\<close>

definition MPIRecvWait_eq :: "Op \<Rightarrow> Op \<Rightarrow> bool" where
  "MPIRecvWait_eq self other = (type_of self = type_of other)"

definition MPISendWait_eq :: "Op \<Rightarrow> Op \<Rightarrow> bool" where
  "MPISendWait_eq self other = (type_of self = type_of other)"

text \<open>
  Attribute lookup \<^verbatim>\<open>self.name\<close>: the instance's own attributes (what \<^verbatim>\<open>__init__\<close>
  bound), then the names bound in the class body, then the base class \<^verbatim>\<open>gof.Op\<close>,
  which is outside the module and is the parameter \<open>base\<close>.
\<close>

fun py_option :: "string option \<Rightarrow> pyval" where
  "py_option None = PyNone"
| "py_option (Some s) = PyStr s"

fun instance_dict :: "Op \<Rightarrow> (string \<times> pyval) list" where
  "instance_dict (OpLoadFromDisk x) =
     [(''dtype'', PyDtype (LoadFromDisk.dtype x)),
      (''broadcastable'', PyTuple (map PyBool (LoadFromDisk.broadcastable x))),
      (''mmap_mode'', py_option (mmap_mode x)),
      (''_info'', (case LoadFromDisk.info x of
                     (d, b, m) \<Rightarrow> PyTuple [PyStr d, PyTuple (map PyBool b), py_option m]))]"
| "instance_dict (OpMPIRecv x) =
     [(''rank'', PyInt (MPIRecv.rank x)),
      (''tag'', PyInt (MPIRecv.tag x)),
      (''shape'', PyTuple (map PyInt (MPIRecv.shape x))),
      (''dtype'', PyDtype (MPIRecv.dtype x)),
      (''broadcastable'', PyTuple (map PyBool (MPIRecv.broadcastable x))),
      (''_info'', (case MPIRecv.info x of
                     (r, t, d, s) \<Rightarrow> PyTuple [PyInt r, PyInt t, PyStr d, PyTuple (map PyInt s)]))]"
| "instance_dict OpMPIRecvWait = []"
| "instance_dict (OpMPISend x) =
     [(''rank'', PyInt (MPISend.rank x)),
      (''tag'', PyInt (MPISend.tag x)),
      (''_info'', (case MPISend.info x of (r, t) \<Rightarrow> PyTuple [PyInt r, PyInt t]))]"
| "instance_dict OpMPISendWait = []"

text \<open>
  Every class body of the module binds the same six method names and a docstring;
  Python adds \<^verbatim>\<open>__module__\<close>.
\<close>

definition class_dict :: "py_class \<Rightarrow> (string \<times> pyval) list" where
  "class_dict c =
     map (\<lambda>n. (n, PyFunction n))
       [''__module__'', ''__doc__'', ''__init__'', ''__eq__'', ''__hash__'', ''make_node'',
        ''perform'', ''__str__'']"

definition py_getattr :: "(string \<Rightarrow> pyval option) \<Rightarrow> Op \<Rightarrow> string \<Rightarrow> exn + pyval" where
  "py_getattr base self name =
     (case map_of (instance_dict self) name of
        Some v \<Rightarrow> Inr v
      | None \<Rightarrow>
          (case map_of (class_dict (type_of self)) name of
             Some v \<Rightarrow> Inr v
           | None \<Rightarrow>
               (case base name of
                  Some v \<Rightarrow> Inr v
                | None \<Rightarrow> Inl AttributeError)))"

text \<open>
  \<^verbatim>\<open>__hash__\<close>. The three configured operations hash \<^verbatim>\<open>self._info\<close>; the two wait
  operations hash \<^verbatim>\<open>self.type\<close>. \<open>hash\<close> is Python's built-in \<^verbatim>\<open>hash\<close>.
\<close>

definition info_hash ::
  "(string \<Rightarrow> pyval option) \<Rightarrow> (pyval \<Rightarrow> exn + int) \<Rightarrow> Op \<Rightarrow> exn + int" where
  "info_hash base hash self =
     (case py_getattr base self ''_info'' of Inl e \<Rightarrow> Inl e | Inr v \<Rightarrow> hash v)"

definition LoadFromDisk_hash ::
  "(string \<Rightarrow> pyval option) \<Rightarrow> (pyval \<Rightarrow> exn + int) \<Rightarrow> LoadFromDisk \<Rightarrow> exn + int" where
  "LoadFromDisk_hash base hash self = info_hash base hash (OpLoadFromDisk self)"

definition MPIRecv_hash ::
  "(string \<Rightarrow> pyval option) \<Rightarrow> (pyval \<Rightarrow> exn + int) \<Rightarrow> MPIRecv \<Rightarrow> exn + int" where
  "MPIRecv_hash base hash self = info_hash base hash (OpMPIRecv self)"

definition MPISend_hash ::
  "(string \<Rightarrow> pyval option) \<Rightarrow> (pyval \<Rightarrow> exn + int) \<Rightarrow> MPISend \<Rightarrow> exn + int" where
  "MPISend_hash base hash self = info_hash base hash (OpMPISend self)"

definition MPIRecvWait_hash ::
  "(string \<Rightarrow> pyval option) \<Rightarrow> (pyval \<Rightarrow> exn + int) \<Rightarrow> Op \<Rightarrow> exn + int" where
  "MPIRecvWait_hash base hash self =
     (case py_getattr base self ''type'' of Inl e \<Rightarrow> Inl e | Inr v \<Rightarrow> hash v)"

definition MPISendWait_hash ::
  "(string \<Rightarrow> pyval option) \<Rightarrow> (pyval \<Rightarrow> exn + int) \<Rightarrow> Op \<Rightarrow> exn + int" where
  "MPISendWait_hash base hash self =
     (case py_getattr base self ''type'' of Inl e \<Rightarrow> Inl e | Inr v \<Rightarrow> hash v)"

section \<open>Graph nodes\<close>

text \<open>
  Modelled from the spec: the graph-construction API (\<^verbatim>\<open>gof.Apply\<close>, \<^verbatim>\<open>Constant\<close>,
  \<^verbatim>\<open>Generic\<close>, \<^verbatim>\<open>tensor\<close>) is outside the module. Section 6 of the specification:
  a node has an operation, inputs and outputs, and each output is typed, by element type
  and shape pattern or as an opaque value.
\<close>

datatype vtype = Generic | TensorType np_dtype "bool list"

datatype variable = Constant vtype pyval | Variable vtype

record Apply =
  op :: Op
  inputs :: "variable list"
  outputs :: "variable list"

definition tensor :: "np_dtype \<Rightarrow> bool list \<Rightarrow> variable" where
  "tensor dt bc = Variable (TensorType dt bc)"

fun variable_type :: "variable \<Rightarrow> vtype" where
  "variable_type (Constant t v) = t"
| "variable_type (Variable t) = t"

text \<open>
  \<^verbatim>\<open>LoadFromDisk.make_node(self, path)\<close>: a Python string (\<open>Inl\<close>) is wrapped into a
  constant of the generic type, a graph variable (\<open>Inr\<close>) is taken as it is.
\<close>

definition LoadFromDisk_make_node :: "LoadFromDisk \<Rightarrow> string + variable \<Rightarrow> Apply" where
  "LoadFromDisk_make_node self path =
     \<lparr>op = OpLoadFromDisk self,
      inputs = [case path of Inl s \<Rightarrow> Constant Generic (PyStr s) | Inr v \<Rightarrow> v],
      outputs = [tensor (LoadFromDisk.dtype self) (LoadFromDisk.broadcastable self)]\<rparr>"

section \<open>A reference environment\<close>

text \<open>
  One concrete outside world, to run the definitions on concrete inputs: a file system
  of single-array files, the buffers of the arrays allocated so far, and the requests
  posted so far. numpy knows a few identifiers, several of them for the same type.
\<close>

record sim_world =
  files :: "(string \<times> np_dtype \<times> int list \<times> int list) list"
  buffers :: "int list list"
  posted :: "(string \<times> int \<times> int \<times> pyval) list"

definition sim_numpy_dtype :: "string \<Rightarrow> exn + np_dtype" where
  "sim_numpy_dtype s =
     (if s \<in> set [''float64'', ''f8'', ''d''] then Inr (Dtype ''float64'')
      else if s \<in> set [''float32'', ''f4'', ''f''] then Inr (Dtype ''float32'')
      else if s \<in> set [''int64'', ''i8''] then Inr (Dtype ''int64'')
      else if s \<in> set [''int32'', ''i4''] then Inr (Dtype ''int32'')
      else Inl TypeError)"

definition sim_numpy_load ::
  "sim_world \<Rightarrow> string \<Rightarrow> string option \<Rightarrow> exn + (pyval \<times> sim_world)" where
  "sim_numpy_load w path mode =
     (case map_of (files w) path of
        None \<Rightarrow> Inl IOError
      | Some (dt, shp, elems) \<Rightarrow>
          Inr (NDArray \<lparr>ndarray.dtype = dt, ndarray.shape = shp, addr = length (buffers w)\<rparr>,
               w\<lparr>buffers := buffers w @ [elems]\<rparr>))"

definition sim_numpy_empty ::
  "sim_world \<Rightarrow> int list \<Rightarrow> np_dtype \<Rightarrow> exn + (ndarray \<times> sim_world)" where
  "sim_numpy_empty w shp dt =
     (if list_ex (\<lambda>n. n < 0) shp then Inl ValueError
      else Inr (\<lparr>ndarray.dtype = dt, ndarray.shape = shp, addr = length (buffers w)\<rparr>,
                w\<lparr>buffers := buffers w @ [replicate (nat (prod_list shp)) 0]\<rparr>))"

definition sim_ndarray_getitem :: "sim_world \<Rightarrow> ndarray \<Rightarrow> nat \<Rightarrow> exn + pyval" where
  "sim_ndarray_getitem w a i =
     (case list_getitem (buffers w) (addr a) of
        Inl e \<Rightarrow> Inl e
      | Inr elems \<Rightarrow>
          (case list_getitem elems i of Inl e \<Rightarrow> Inl e | Inr n \<Rightarrow> Inr (PyInt n)))"

definition sim_post ::
  "string \<Rightarrow> sim_world \<Rightarrow> pyval \<Rightarrow> int \<Rightarrow> int \<Rightarrow> exn + (pyval \<times> sim_world)" where
  "sim_post kind w buf peer t =
     Inr (Request (length (posted w)), w\<lparr>posted := posted w @ [(kind, peer, t, buf)]\<rparr>)"

definition sim_Request_wait :: "sim_world \<Rightarrow> nat \<Rightarrow> exn + sim_world" where
  "sim_Request_wait w r = (if r < length (posted w) then Inr w else Inl (OtherError ''MPI''))"

definition sim_comm :: "sim_world Intracomm" where
  "sim_comm = \<lparr>Isend = sim_post ''send'', Irecv = sim_post ''recv''\<rparr>"

text \<open>The environment before the \<^verbatim>\<open>try\<close> block of the module has run: \<^verbatim>\<open>comm\<close> unbound.\<close>

definition sim_env0 :: "sim_world env" where
  "sim_env0 =
     \<lparr>numpy_dtype = sim_numpy_dtype, numpy_load = sim_numpy_load,
      numpy_empty = sim_numpy_empty, ndarray_getitem = sim_ndarray_getitem,
      Request_wait = sim_Request_wait, comm = None, mpi_enabled = False\<rparr>"

text \<open>The module loaded where the MPI binding imports, and where it does not.\<close>

definition sim_env :: "sim_world env" where
  "sim_env = import_mpi (Inr sim_comm) sim_env0"

definition sim_env_no_mpi :: "sim_world env" where
  "sim_env_no_mpi = import_mpi (Inl (OtherError ''ImportError'')) sim_env0"

text \<open>A world with an \<^verbatim>\<open>int64\<close> vector on disk and the tensor \<^verbatim>\<open>[1,2,3]\<close> in memory.\<close>

definition sim_world0 :: sim_world where
  "sim_world0 =
     \<lparr>files = [(''stored-array.npy'', Dtype ''int64'', [5], [0, 1, 2, 3, 4])],
      buffers = [[1, 2, 3]],
      posted = []\<rparr>"

definition tensor123 :: ndarray where
  "tensor123 = \<lparr>ndarray.dtype = Dtype ''int64'', ndarray.shape = [3], addr = 0\<rparr>"

section \<open>Lemmas on the Python primitives\<close>

lemma str_split_acc_nonempty: "str_split_acc c cur s \<noteq> []"
  by (induction s arbitrary: cur) auto

lemma last_str_split_acc_sep:
  "last (str_split_acc c cur (p @ c # q)) = last (str_split_acc c [] q)"
proof (induction p arbitrary: cur)
  case Nil
  show ?case by (simp add: str_split_acc_nonempty)
next
  case (Cons x p)
  show ?case
  proof (cases "x = c")
    case True
    then show ?thesis using Cons.IH [of "[]"] by (simp add: str_split_acc_nonempty)
  next
    case False
    then show ?thesis using Cons.IH [of "x # cur"] by simp
  qed
qed

lemma str_split_nonempty: "str_split s c \<noteq> []"
  by (simp add: str_split_def str_split_acc_nonempty)

lemma last_str_split_suffix: "last (str_split (p @ c # q) c) = last (str_split q c)"
  by (simp add: str_split_def last_str_split_acc_sep)

lemma str_split_acc_no_sep: "c \<notin> set s \<Longrightarrow> str_split_acc c cur s = [rev cur @ s]"
  by (induction s arbitrary: cur) auto

lemma last_str_split_extension:
  "c \<notin> set e \<Longrightarrow> last (str_split (p @ c # e) c) = e"
  by (simp add: str_split_def last_str_split_acc_sep str_split_acc_no_sep)

lemma extension_npz: "last (str_split (p @ ''.npz'') CHR ''.'') = ''npz''"
  using last_str_split_extension [of "CHR ''.''" "''npz''" p] by simp

lemma storage_setitem_first:
  "storage_setitem ((v # vs) # cells) 0 0 x = Inr ((x # vs) # cells)"
  by (simp add: storage_setitem_def list_getitem_def list_setitem_def)

lemma sim_env_fields:
  "numpy_dtype sim_env = sim_numpy_dtype"
  "numpy_load sim_env = sim_numpy_load"
  "numpy_empty sim_env = sim_numpy_empty"
  "ndarray_getitem sim_env = sim_ndarray_getitem"
  "Request_wait sim_env = sim_Request_wait"
  "comm sim_env = Some sim_comm"
  "mpi_enabled sim_env = True"
  by (simp_all add: sim_env_def sim_env0_def import_mpi_def)

lemma sim_env_no_mpi_fields:
  "numpy_dtype sim_env_no_mpi = sim_numpy_dtype"
  "numpy_load sim_env_no_mpi = sim_numpy_load"
  "numpy_empty sim_env_no_mpi = sim_numpy_empty"
  "ndarray_getitem sim_env_no_mpi = sim_ndarray_getitem"
  "Request_wait sim_env_no_mpi = sim_Request_wait"
  "comm sim_env_no_mpi = None"
  "mpi_enabled sim_env_no_mpi = False"
  by (simp_all add: sim_env_no_mpi_def sim_env0_def import_mpi_def)

section \<open>The loader\<close>

text \<open>
  C3. For an element type numpy knows and any shape pattern, constructing a loader
  succeeds when the mmap mode is \<^verbatim>\<open>None\<close> or \<^verbatim>\<open>'c'\<close>, and fails with the ValueError of
  line 23 for every other mode. The error is raised by the constructor: a loader that
  exists has one of the two modes, so no compute step ever meets another.
\<close>

theorem LoadFromDisk_init_mmap_mode:
  assumes "numpy_dtype g d = Inr dt"
  shows "(m = None \<or> m = Some ''c'' \<longrightarrow>
           LoadFromDisk_init g d b m =
             Inr \<lparr>LoadFromDisk.dtype = dt, LoadFromDisk.broadcastable = b, mmap_mode = m,
                  LoadFromDisk.info = (d, b, m)\<rparr>)
       \<and> (m \<noteq> None \<and> m \<noteq> Some ''c'' \<longrightarrow> LoadFromDisk_init g d b m = Inl ValueError)
       \<and> (LoadFromDisk_init g d b m = Inr self \<longrightarrow>
            mmap_mode self = m \<and> (m = None \<or> m = Some ''c''))"
  using assms by (auto simp: LoadFromDisk_init_def)

theorem LoadFromDisk_init_mmap_mode_witness:
  "numpy_dtype sim_env ''int64'' = Inr (Dtype ''int64'')
   \<and> LoadFromDisk_init sim_env ''int64'' [False] None =
       Inr \<lparr>LoadFromDisk.dtype = Dtype ''int64'', LoadFromDisk.broadcastable = [False],
            mmap_mode = None, LoadFromDisk.info = (''int64'', [False], None)\<rparr>
   \<and> LoadFromDisk_init sim_env ''int64'' [False] (Some ''c'') =
       Inr \<lparr>LoadFromDisk.dtype = Dtype ''int64'', LoadFromDisk.broadcastable = [False],
            mmap_mode = Some ''c'', LoadFromDisk.info = (''int64'', [False], Some ''c'')\<rparr>
   \<and> LoadFromDisk_init sim_env ''int64'' [False] (Some ''r+'') = Inl ValueError"
proof -
  have h: "numpy_dtype sim_env ''int64'' = Inr (Dtype ''int64'')"
    by (simp add: sim_env_fields sim_numpy_dtype_def)
  show ?thesis
    using h
      LoadFromDisk_init_mmap_mode [OF h, of None "[False]"]
      LoadFromDisk_init_mmap_mode [OF h, of "Some ''c''" "[False]"]
      LoadFromDisk_init_mmap_mode [OF h, of "Some ''r+''" "[False]"]
    by simp
qed

text \<open>
  C2. The compute step of the loader raises the ValueError of line 43 whenever the last
  dot-separated piece of the path is \<^verbatim>\<open>npz\<close>, so for every path that ends in \<^verbatim>\<open>.npz\<close>,
  before the file is opened and so whatever it holds. For any other path, when the
  array numpy loads has an element type other than the configured one, it raises the
  TypeError of line 46. In both cases the output storage is as it was.
\<close>

theorem LoadFromDisk_perform_errors:
  "(last (str_split path CHR ''.'') = ''npz'' \<longrightarrow>
      LoadFromDisk_perform g self (PyStr path # rest) out w = (Some ValueError, out, w))
   \<and> LoadFromDisk_perform g self (PyStr (p @ ''.npz'') # rest) out w = (Some ValueError, out, w)
   \<and> (last (str_split path CHR ''.'') \<noteq> ''npz'' \<longrightarrow>
        numpy_load g w path (mmap_mode self) = Inr (NDArray a, w') \<longrightarrow>
        ndarray.dtype a \<noteq> LoadFromDisk.dtype self \<longrightarrow>
        LoadFromDisk_perform g self (PyStr path # rest) out w = (Some TypeError, out, w'))"
proof -
  have npz: "LoadFromDisk_perform g self (PyStr q # rest) out w = (Some ValueError, out, w)"
    if "last (str_split q CHR ''.'') = ''npz''" for q
    using that str_split_nonempty [of q "CHR ''.''"]
    by (simp add: LoadFromDisk_perform_def list_getitem_def list_last_def)
  have mismatch: "LoadFromDisk_perform g self (PyStr path # rest) out w = (Some TypeError, out, w')"
    if "last (str_split path CHR ''.'') \<noteq> ''npz''"
      and "numpy_load g w path (mmap_mode self) = Inr (NDArray a, w')"
      and "ndarray.dtype a \<noteq> LoadFromDisk.dtype self"
    using that str_split_nonempty [of path "CHR ''.''"]
    by (simp add: LoadFromDisk_perform_def list_getitem_def list_last_def py_dtype_def)
  from npz [of path] npz [OF extension_npz [of p]] mismatch show ?thesis
    by blast
qed

theorem LoadFromDisk_perform_errors_witness:
  "last (str_split ''archive.npz'' CHR ''.'') = ''npz''
   \<and> LoadFromDisk_perform sim_env
         \<lparr>LoadFromDisk.dtype = Dtype ''float64'', LoadFromDisk.broadcastable = [False],
          mmap_mode = None, LoadFromDisk.info = (''float64'', [False], None)\<rparr>
         [PyStr ''archive.npz''] [[PyNone]] sim_world0
       = (Some ValueError, [[PyNone]], sim_world0)
   \<and> last (str_split ''stored-array.npy'' CHR ''.'') \<noteq> ''npz''
   \<and> numpy_load sim_env sim_world0 ''stored-array.npy'' None =
         Inr (NDArray \<lparr>ndarray.dtype = Dtype ''int64'', ndarray.shape = [5], addr = 1\<rparr>,
              sim_world0\<lparr>buffers := [[1, 2, 3], [0, 1, 2, 3, 4]]\<rparr>)
   \<and> LoadFromDisk_perform sim_env
         \<lparr>LoadFromDisk.dtype = Dtype ''float64'', LoadFromDisk.broadcastable = [False],
          mmap_mode = None, LoadFromDisk.info = (''float64'', [False], None)\<rparr>
         [PyStr ''stored-array.npy''] [[PyNone]] sim_world0
       = (Some TypeError, [[PyNone]], sim_world0\<lparr>buffers := [[1, 2, 3], [0, 1, 2, 3, 4]]\<rparr>)"
proof -
  let ?self = "\<lparr>LoadFromDisk.dtype = Dtype ''float64'', LoadFromDisk.broadcastable = [False],
          mmap_mode = None, LoadFromDisk.info = (''float64'', [False], None)\<rparr>"
  let ?a = "\<lparr>ndarray.dtype = Dtype ''int64'', ndarray.shape = [5], addr = 1\<rparr>"
  let ?w = "sim_world0\<lparr>buffers := [[1, 2, 3], [0, 1, 2, 3, 4]]\<rparr>"
  have e1: "last (str_split ''archive.npz'' CHR ''.'') = ''npz''"
    by (simp add: str_split_def)
  have e2: "last (str_split ''stored-array.npy'' CHR ''.'') \<noteq> ''npz''"
    by (simp add: str_split_def)
  have ld: "numpy_load sim_env sim_world0 ''stored-array.npy'' (mmap_mode ?self) = Inr (NDArray ?a, ?w)"
    by (simp add: sim_env_fields sim_numpy_load_def sim_world0_def)
  have ne: "ndarray.dtype ?a \<noteq> LoadFromDisk.dtype ?self"
    by simp
  show ?thesis
    using e1 e2 ld
      LoadFromDisk_perform_errors
        [of "''archive.npz''" sim_env ?self "[]" "[[PyNone]]" sim_world0 "[]" ?a ?w]
      LoadFromDisk_perform_errors
        [of "''stored-array.npy''" sim_env ?self "[]" "[[PyNone]]" sim_world0 "[]" ?a ?w]
    by simp
qed

text \<open>
  C4. A loader built from an element type identifier \<open>d\<close>, a shape pattern \<open>b\<close> and an
  mmap mode \<open>m\<close>, run on a path whose last piece is not \<^verbatim>\<open>npz\<close> and whose file numpy
  loads as an array of the configured element type, writes that array into the slot of
  its first output: the value has exactly the canonical type of \<open>d\<close>. The node
  \<^verbatim>\<open>make_node\<close> builds has one output, a tensor variable of that element type and of the
  pattern \<open>b\<close>.
\<close>

theorem LoadFromDisk_load_ok:
  assumes "LoadFromDisk_init g d b m = Inr self"
    and "last (str_split path CHR ''.'') \<noteq> ''npz''"
    and "numpy_load g w path m = Inr (NDArray a, w')"
    and "ndarray.dtype a = LoadFromDisk.dtype self"
  shows "LoadFromDisk_perform g self [PyStr path] ((v # vs) # cells) w
           = (None, (NDArray a # vs) # cells, w')
       \<and> numpy_dtype g d = Inr (ndarray.dtype a)
       \<and> outputs (LoadFromDisk_make_node self arg) = [Variable (TensorType (ndarray.dtype a) b)]
       \<and> op (LoadFromDisk_make_node self arg) = OpLoadFromDisk self"
proof -
  from assms(1) have self: "numpy_dtype g d = Inr (LoadFromDisk.dtype self)"
    "LoadFromDisk.broadcastable self = b" "mmap_mode self = m"
    by (auto simp: LoadFromDisk_init_def split: sum.splits if_splits)
  have run: "LoadFromDisk_perform g self [PyStr path] ((v # vs) # cells) w
           = (None, (NDArray a # vs) # cells, w')"
    using assms(2-4) self(3) str_split_nonempty [of path "CHR ''.''"]
    by (simp add: LoadFromDisk_perform_def list_getitem_def list_last_def py_dtype_def
        storage_setitem_first)
  show ?thesis
    using run self assms(4) by (simp add: LoadFromDisk_make_node_def tensor_def)
qed

theorem LoadFromDisk_load_ok_witness:
  "LoadFromDisk_init sim_env ''i8'' [False] None =
     Inr \<lparr>LoadFromDisk.dtype = Dtype ''int64'', LoadFromDisk.broadcastable = [False],
          mmap_mode = None, LoadFromDisk.info = (''i8'', [False], None)\<rparr>
   \<and> last (str_split ''stored-array.npy'' CHR ''.'') \<noteq> ''npz''
   \<and> numpy_load sim_env sim_world0 ''stored-array.npy'' None =
         Inr (NDArray \<lparr>ndarray.dtype = Dtype ''int64'', ndarray.shape = [5], addr = 1\<rparr>,
              sim_world0\<lparr>buffers := [[1, 2, 3], [0, 1, 2, 3, 4]]\<rparr>)
   \<and> LoadFromDisk_perform sim_env
         \<lparr>LoadFromDisk.dtype = Dtype ''int64'', LoadFromDisk.broadcastable = [False],
          mmap_mode = None, LoadFromDisk.info = (''i8'', [False], None)\<rparr>
         [PyStr ''stored-array.npy''] [[PyNone]] sim_world0
       = (None, [[NDArray \<lparr>ndarray.dtype = Dtype ''int64'', ndarray.shape = [5], addr = 1\<rparr>]],
          sim_world0\<lparr>buffers := [[1, 2, 3], [0, 1, 2, 3, 4]]\<rparr>)
   \<and> outputs (LoadFromDisk_make_node
         \<lparr>LoadFromDisk.dtype = Dtype ''int64'', LoadFromDisk.broadcastable = [False],
          mmap_mode = None, LoadFromDisk.info = (''i8'', [False], None)\<rparr>
         (Inl ''stored-array.npy''))
       = [Variable (TensorType (Dtype ''int64'') [False])]"
proof -
  let ?self = "\<lparr>LoadFromDisk.dtype = Dtype ''int64'', LoadFromDisk.broadcastable = [False],
          mmap_mode = None, LoadFromDisk.info = (''i8'', [False], None)\<rparr>"
  let ?a = "\<lparr>ndarray.dtype = Dtype ''int64'', ndarray.shape = [5], addr = 1\<rparr>"
  let ?w = "sim_world0\<lparr>buffers := [[1, 2, 3], [0, 1, 2, 3, 4]]\<rparr>"
  have i: "LoadFromDisk_init sim_env ''i8'' [False] None = Inr ?self"
    by (simp add: LoadFromDisk_init_def sim_env_fields sim_numpy_dtype_def)
  have e: "last (str_split ''stored-array.npy'' CHR ''.'') \<noteq> ''npz''"
    by (simp add: str_split_def)
  have ld: "numpy_load sim_env sim_world0 ''stored-array.npy'' None = Inr (NDArray ?a, ?w)"
    by (simp add: sim_env_fields sim_numpy_load_def sim_world0_def)
  have eq: "ndarray.dtype ?a = LoadFromDisk.dtype ?self"
    by simp
  show ?thesis
    using i e ld
      LoadFromDisk_load_ok [OF i e ld eq, of PyNone "[]" "[]" "Inl ''stored-array.npy''"]
    by simp
qed

section \<open>Equality of nodes\<close>

lemma LoadFromDisk_init_fields:
  assumes "LoadFromDisk_init g d b m = Inr x"
  shows "numpy_dtype g d = Inr (LoadFromDisk.dtype x)"
    and "LoadFromDisk.broadcastable x = b"
    and "mmap_mode x = m"
    and "LoadFromDisk.info x = (d, b, m)"
  using assms by (auto simp: LoadFromDisk_init_def split: sum.splits if_splits)

lemma MPIRecv_init_fields:
  assumes "MPIRecv_init g r t d s = Inr x"
  shows "numpy_dtype g d = Inr (MPIRecv.dtype x)"
    and "MPIRecv.rank x = r"
    and "MPIRecv.tag x = t"
    and "MPIRecv.shape x = s"
    and "MPIRecv.broadcastable x = replicate (length s) False"
    and "MPIRecv.info x = (r, t, d, s)"
  using assms by (auto simp: MPIRecv_init_def split: sum.splits)

text \<open>
  C5, as the code has it. Two loaders are equal exactly when the element type
  identifiers they were given, their shape patterns and their mmap modes are equal:
  \<^verbatim>\<open>_info\<close> holds the identifier as given, not the canonical type. Equal loaders have the
  same canonical element type; loaders given different identifiers are unequal, also
  when the identifiers name one type.
\<close>

theorem LoadFromDisk_eq_iff:
  assumes "LoadFromDisk_init g d1 b1 m1 = Inr x"
    and "LoadFromDisk_init g d2 b2 m2 = Inr y"
  shows "(LoadFromDisk_eq x (OpLoadFromDisk y) \<longleftrightarrow> d1 = d2 \<and> b1 = b2 \<and> m1 = m2)
       \<and> (LoadFromDisk_eq x (OpLoadFromDisk y) \<longrightarrow>
            LoadFromDisk.dtype x = LoadFromDisk.dtype y
            \<and> LoadFromDisk.broadcastable x = LoadFromDisk.broadcastable y
            \<and> mmap_mode x = mmap_mode y)"
proof -
  have iff: "LoadFromDisk_eq x (OpLoadFromDisk y) \<longleftrightarrow> d1 = d2 \<and> b1 = b2 \<and> m1 = m2"
    using LoadFromDisk_init_fields(4) [OF assms(1)] LoadFromDisk_init_fields(4) [OF assms(2)]
    by (simp add: LoadFromDisk_eq_def)
  have "LoadFromDisk.dtype x = LoadFromDisk.dtype y" if "d1 = d2"
    using that LoadFromDisk_init_fields(1) [OF assms(1)] LoadFromDisk_init_fields(1) [OF assms(2)]
    by simp
  then show ?thesis
    using iff LoadFromDisk_init_fields(2,3) [OF assms(1)] LoadFromDisk_init_fields(2,3) [OF assms(2)]
    by simp
qed

theorem LoadFromDisk_eq_iff_witness:
  "LoadFromDisk_init sim_env ''float64'' [False, True] (Some ''c'') =
     Inr \<lparr>LoadFromDisk.dtype = Dtype ''float64'', LoadFromDisk.broadcastable = [False, True],
          mmap_mode = Some ''c'', LoadFromDisk.info = (''float64'', [False, True], Some ''c'')\<rparr>
   \<and> LoadFromDisk_eq
        \<lparr>LoadFromDisk.dtype = Dtype ''float64'', LoadFromDisk.broadcastable = [False, True],
         mmap_mode = Some ''c'', LoadFromDisk.info = (''float64'', [False, True], Some ''c'')\<rparr>
        (OpLoadFromDisk
          \<lparr>LoadFromDisk.dtype = Dtype ''float64'', LoadFromDisk.broadcastable = [False, True],
           mmap_mode = Some ''c'', LoadFromDisk.info = (''float64'', [False, True], Some ''c'')\<rparr>)"
proof -
  let ?x = "\<lparr>LoadFromDisk.dtype = Dtype ''float64'', LoadFromDisk.broadcastable = [False, True],
          mmap_mode = Some ''c'', LoadFromDisk.info = (''float64'', [False, True], Some ''c'')\<rparr>"
  have i: "LoadFromDisk_init sim_env ''float64'' [False, True] (Some ''c'') = Inr ?x"
    by (simp add: LoadFromDisk_init_def sim_env_fields sim_numpy_dtype_def)
  show ?thesis
    using i LoadFromDisk_eq_iff [OF i i] by simp
qed

text \<open>
  C5 as stated fails: \<^verbatim>\<open>"float64"\<close> and \<^verbatim>\<open>"f8"\<close> are one element type after
  \<^verbatim>\<open>numpy.dtype\<close>, the two loaders agree on element type, shape pattern and mmap mode,
  and \<^verbatim>\<open>__eq__\<close> returns False.
\<close>

theorem LoadFromDisk_eq_alias_counterexample:
  "LoadFromDisk_init sim_env ''float64'' [False] None =
     Inr \<lparr>LoadFromDisk.dtype = Dtype ''float64'', LoadFromDisk.broadcastable = [False],
          mmap_mode = None, LoadFromDisk.info = (''float64'', [False], None)\<rparr>
   \<and> LoadFromDisk_init sim_env ''f8'' [False] None =
     Inr \<lparr>LoadFromDisk.dtype = Dtype ''float64'', LoadFromDisk.broadcastable = [False],
          mmap_mode = None, LoadFromDisk.info = (''f8'', [False], None)\<rparr>
   \<and> \<not> LoadFromDisk_eq
        \<lparr>LoadFromDisk.dtype = Dtype ''float64'', LoadFromDisk.broadcastable = [False],
         mmap_mode = None, LoadFromDisk.info = (''float64'', [False], None)\<rparr>
        (OpLoadFromDisk
          \<lparr>LoadFromDisk.dtype = Dtype ''float64'', LoadFromDisk.broadcastable = [False],
           mmap_mode = None, LoadFromDisk.info = (''f8'', [False], None)\<rparr>)"
  by (simp add: LoadFromDisk_init_def LoadFromDisk_eq_def sim_env_fields sim_numpy_dtype_def)

text \<open>
  C6, as the code has it. Two Receive nodes are equal exactly when the peer rank, the
  tag, the element type identifier and the shape they were constructed with are equal,
  so changing any one of the four makes them unequal: \<^verbatim>\<open>_info\<close> holds the identifier as
  given, not the canonical type. Equal Receive nodes have the same rank, tag, canonical
  element type and shape; nodes given different identifiers are unequal, also when the
  identifiers name one type. Two Send nodes are equal exactly when rank and tag are
  equal.
\<close>

theorem MPI_eq_iff:
  "(MPIRecv_init g r1 t1 d1 s1 = Inr x \<longrightarrow> MPIRecv_init g r2 t2 d2 s2 = Inr y \<longrightarrow>
      (MPIRecv_eq x (OpMPIRecv y) \<longleftrightarrow> r1 = r2 \<and> t1 = t2 \<and> d1 = d2 \<and> s1 = s2)
      \<and> (MPIRecv_eq x (OpMPIRecv y) \<longrightarrow>
           MPIRecv.rank x = MPIRecv.rank y \<and> MPIRecv.tag x = MPIRecv.tag y
           \<and> MPIRecv.dtype x = MPIRecv.dtype y \<and> MPIRecv.shape x = MPIRecv.shape y))
   \<and> (MPISend_eq (MPISend_init p1 q1) (OpMPISend (MPISend_init p2 q2)) \<longleftrightarrow> p1 = p2 \<and> q1 = q2)"
proof -
  have recv: "MPIRecv_eq x (OpMPIRecv y) \<longleftrightarrow> r1 = r2 \<and> t1 = t2 \<and> d1 = d2 \<and> s1 = s2"
    if "MPIRecv_init g r1 t1 d1 s1 = Inr x" and "MPIRecv_init g r2 t2 d2 s2 = Inr y"
    using MPIRecv_init_fields(6) [OF that(1)] MPIRecv_init_fields(6) [OF that(2)]
    by (simp add: MPIRecv_eq_def)
  have fields: "MPIRecv.rank x = MPIRecv.rank y \<and> MPIRecv.tag x = MPIRecv.tag y
           \<and> MPIRecv.dtype x = MPIRecv.dtype y \<and> MPIRecv.shape x = MPIRecv.shape y"
    if "MPIRecv_init g r1 t1 d1 s1 = Inr x" and "MPIRecv_init g r2 t2 d2 s2 = Inr y"
      and "MPIRecv_eq x (OpMPIRecv y)"
    using recv [OF that(1,2)] that(3)
      MPIRecv_init_fields(1-4) [OF that(1)] MPIRecv_init_fields(1-4) [OF that(2)]
    by simp
  have send: "MPISend_eq (MPISend_init p1 q1) (OpMPISend (MPISend_init p2 q2)) \<longleftrightarrow> p1 = p2 \<and> q1 = q2"
    by (simp add: MPISend_eq_def MPISend_init_def)
  from recv fields send show ?thesis by blast
qed

text \<open>
  C6 as stated fails: \<^verbatim>\<open>"float64"\<close> and \<^verbatim>\<open>"f8"\<close> are one element type after
  \<^verbatim>\<open>numpy.dtype\<close>, the two Receive nodes agree on peer rank, tag, element type and
  shape, and \<^verbatim>\<open>__eq__\<close> returns False.
\<close>

theorem MPIRecv_eq_alias_counterexample:
  "MPIRecv_init sim_env 0 7 ''float64'' [3] =
     Inr \<lparr>MPIRecv.rank = 0, MPIRecv.tag = 7, MPIRecv.shape = [3],
          MPIRecv.dtype = Dtype ''float64'', MPIRecv.broadcastable = [False],
          MPIRecv.info = (0, 7, ''float64'', [3])\<rparr>
   \<and> MPIRecv_init sim_env 0 7 ''f8'' [3] =
     Inr \<lparr>MPIRecv.rank = 0, MPIRecv.tag = 7, MPIRecv.shape = [3],
          MPIRecv.dtype = Dtype ''float64'', MPIRecv.broadcastable = [False],
          MPIRecv.info = (0, 7, ''f8'', [3])\<rparr>
   \<and> \<not> MPIRecv_eq
        \<lparr>MPIRecv.rank = 0, MPIRecv.tag = 7, MPIRecv.shape = [3],
         MPIRecv.dtype = Dtype ''float64'', MPIRecv.broadcastable = [False],
         MPIRecv.info = (0, 7, ''float64'', [3])\<rparr>
        (OpMPIRecv
          \<lparr>MPIRecv.rank = 0, MPIRecv.tag = 7, MPIRecv.shape = [3],
           MPIRecv.dtype = Dtype ''float64'', MPIRecv.broadcastable = [False],
           MPIRecv.info = (0, 7, ''f8'', [3])\<rparr>)"
  by (simp add: MPIRecv_init_def MPIRecv_eq_def sim_env_fields sim_numpy_dtype_def)

theorem MPI_eq_iff_witness:
  "MPIRecv_init sim_env 0 7 ''int64'' [3] =
     Inr \<lparr>MPIRecv.rank = 0, MPIRecv.tag = 7, MPIRecv.shape = [3], MPIRecv.dtype = Dtype ''int64'',
          MPIRecv.broadcastable = [False], MPIRecv.info = (0, 7, ''int64'', [3])\<rparr>
   \<and> MPIRecv_init sim_env 0 8 ''int64'' [3] =
     Inr \<lparr>MPIRecv.rank = 0, MPIRecv.tag = 8, MPIRecv.shape = [3], MPIRecv.dtype = Dtype ''int64'',
          MPIRecv.broadcastable = [False], MPIRecv.info = (0, 8, ''int64'', [3])\<rparr>
   \<and> \<not> MPIRecv_eq
        \<lparr>MPIRecv.rank = 0, MPIRecv.tag = 7, MPIRecv.shape = [3], MPIRecv.dtype = Dtype ''int64'',
         MPIRecv.broadcastable = [False], MPIRecv.info = (0, 7, ''int64'', [3])\<rparr>
        (OpMPIRecv
          \<lparr>MPIRecv.rank = 0, MPIRecv.tag = 8, MPIRecv.shape = [3], MPIRecv.dtype = Dtype ''int64'',
           MPIRecv.broadcastable = [False], MPIRecv.info = (0, 8, ''int64'', [3])\<rparr>)
   \<and> MPIRecv_eq
        \<lparr>MPIRecv.rank = 0, MPIRecv.tag = 7, MPIRecv.shape = [3], MPIRecv.dtype = Dtype ''int64'',
         MPIRecv.broadcastable = [False], MPIRecv.info = (0, 7, ''int64'', [3])\<rparr>
        (OpMPIRecv
          \<lparr>MPIRecv.rank = 0, MPIRecv.tag = 7, MPIRecv.shape = [3], MPIRecv.dtype = Dtype ''int64'',
           MPIRecv.broadcastable = [False], MPIRecv.info = (0, 7, ''int64'', [3])\<rparr>)
   \<and> MPISend_eq (MPISend_init 1 7) (OpMPISend (MPISend_init 1 7))
   \<and> \<not> MPISend_eq (MPISend_init 1 7) (OpMPISend (MPISend_init 2 7))"
proof -
  let ?x = "\<lparr>MPIRecv.rank = 0, MPIRecv.tag = 7, MPIRecv.shape = [3], MPIRecv.dtype = Dtype ''int64'',
          MPIRecv.broadcastable = [False], MPIRecv.info = (0, 7, ''int64'', [3])\<rparr>"
  let ?y = "\<lparr>MPIRecv.rank = 0, MPIRecv.tag = 8, MPIRecv.shape = [3], MPIRecv.dtype = Dtype ''int64'',
          MPIRecv.broadcastable = [False], MPIRecv.info = (0, 8, ''int64'', [3])\<rparr>"
  have x: "MPIRecv_init sim_env 0 7 ''int64'' [3] = Inr ?x"
    by (simp add: MPIRecv_init_def sim_env_fields sim_numpy_dtype_def)
  have y: "MPIRecv_init sim_env 0 8 ''int64'' [3] = Inr ?y"
    by (simp add: MPIRecv_init_def sim_env_fields sim_numpy_dtype_def)
  show ?thesis
    using x y
      MPI_eq_iff [of sim_env 0 7 "''int64''" "[3]" ?x 0 8 "''int64''" "[3]" ?y 1 7 1 7]
      MPI_eq_iff [of sim_env 0 7 "''int64''" "[3]" ?x 0 7 "''int64''" "[3]" ?x 1 7 2 7]
    by simp
qed

text \<open>
  C7. The two wait operations take no constructor argument and bind no attribute. An
  \<^verbatim>\<open>MPIRecvWait\<close> instance equals exactly the instances of \<^verbatim>\<open>MPIRecvWait\<close>, an
  \<^verbatim>\<open>MPISendWait\<close> instance exactly those of \<^verbatim>\<open>MPISendWait\<close>; instances of the two kinds
  are unequal, in either order.
\<close>

theorem Wait_eq_by_type:
  "MPIRecvWait_eq OpMPIRecvWait other = (type_of other = MPIRecvWait_class)
   \<and> MPISendWait_eq OpMPISendWait other = (type_of other = MPISendWait_class)
   \<and> MPIRecvWait_eq OpMPIRecvWait OpMPIRecvWait
   \<and> MPISendWait_eq OpMPISendWait OpMPISendWait
   \<and> \<not> MPIRecvWait_eq OpMPIRecvWait OpMPISendWait
   \<and> \<not> MPISendWait_eq OpMPISendWait OpMPIRecvWait
   \<and> instance_dict OpMPIRecvWait = []
   \<and> instance_dict OpMPISendWait = []"
  by (auto simp: MPIRecvWait_eq_def MPISendWait_eq_def)

text \<open>
  C9. Provided the base class \<^verbatim>\<open>gof.Op\<close> defines no attribute \<^verbatim>\<open>type\<close>, hashing a fresh
  \<^verbatim>\<open>MPIRecvWait\<close> or \<^verbatim>\<open>MPISendWait\<close> raises AttributeError: \<^verbatim>\<open>__hash__\<close> reads \<^verbatim>\<open>self.type\<close>,
  which neither \<^verbatim>\<open>__init__\<close> nor the class body binds. Equality of the same instances
  returns True, so equal instances have no hash at all.
\<close>

theorem Wait_hash_raises:
  assumes "base ''type'' = None"
  shows "MPIRecvWait_hash base hash OpMPIRecvWait = Inl AttributeError
       \<and> MPISendWait_hash base hash OpMPISendWait = Inl AttributeError
       \<and> MPIRecvWait_eq OpMPIRecvWait OpMPIRecvWait
       \<and> MPISendWait_eq OpMPISendWait OpMPISendWait"
  using assms
  by (simp add: MPIRecvWait_hash_def MPISendWait_hash_def py_getattr_def class_dict_def
      MPIRecvWait_eq_def MPISendWait_eq_def)

theorem Wait_hash_raises_witness:
  "map_of [(''__class__'', PyFunction ''type''), (''__ne__'', PyFunction ''__ne__'')] ''type'' = None
   \<and> MPIRecvWait_hash
        (map_of [(''__class__'', PyFunction ''type''), (''__ne__'', PyFunction ''__ne__'')])
        (\<lambda>v. Inr 0) OpMPIRecvWait = Inl AttributeError
   \<and> MPISendWait_hash
        (map_of [(''__class__'', PyFunction ''type''), (''__ne__'', PyFunction ''__ne__'')])
        (\<lambda>v. Inr 0) OpMPISendWait = Inl AttributeError"
proof -
  have h: "map_of [(''__class__'', PyFunction ''type''), (''__ne__'', PyFunction ''__ne__'')] ''type''
      = None"
    by simp
  show ?thesis
    using h
      Wait_hash_raises
        [of "map_of [(''__class__'', PyFunction ''type''), (''__ne__'', PyFunction ''__ne__'')]"
            "\<lambda>v. Inr 0"]
    by simp
qed

text \<open>
  C10. Every Receive node that the constructor returns has the broadcastable pattern
  \<^verbatim>\<open>(False,)*len(shape)\<close>: as long as its shape, and False on every axis. No method of
  the class assigns an attribute, so the pattern stays.
\<close>

theorem MPIRecv_broadcastable:
  assumes "MPIRecv_init g r t d s = Inr node"
  shows "MPIRecv.broadcastable node = replicate (length s) False
       \<and> MPIRecv.shape node = s
       \<and> length (MPIRecv.broadcastable node) = length (MPIRecv.shape node)
       \<and> list_all (\<lambda>b. b = False) (MPIRecv.broadcastable node)"
  using MPIRecv_init_fields(4,5) [OF assms] by (simp add: list_all_length)

theorem MPIRecv_broadcastable_witness:
  "MPIRecv_init sim_env 0 7 ''int64'' [2, 3] =
     Inr \<lparr>MPIRecv.rank = 0, MPIRecv.tag = 7, MPIRecv.shape = [2, 3],
          MPIRecv.dtype = Dtype ''int64'', MPIRecv.broadcastable = [False, False],
          MPIRecv.info = (0, 7, ''int64'', [2, 3])\<rparr>
   \<and> MPIRecv.broadcastable
        \<lparr>MPIRecv.rank = 0, MPIRecv.tag = 7, MPIRecv.shape = [2, 3],
         MPIRecv.dtype = Dtype ''int64'', MPIRecv.broadcastable = [False, False],
         MPIRecv.info = (0, 7, ''int64'', [2, 3])\<rparr>
       = replicate (length [2, 3 :: int]) False"
proof -
  let ?x = "\<lparr>MPIRecv.rank = 0, MPIRecv.tag = 7, MPIRecv.shape = [2, 3],
          MPIRecv.dtype = Dtype ''int64'', MPIRecv.broadcastable = [False, False],
          MPIRecv.info = (0, 7, ''int64'', [2, 3])\<rparr>"
  have x: "MPIRecv_init sim_env 0 7 ''int64'' [2, 3] = Inr ?x"
    by (simp add: MPIRecv_init_def sim_env_fields sim_numpy_dtype_def)
  show ?thesis
    using x MPIRecv_broadcastable [OF x] by simp
qed

section \<open>The transport layer\<close>

lemma import_mpi_failed_fields:
  "numpy_dtype (import_mpi (Inl e) g) = numpy_dtype g"
  "numpy_load (import_mpi (Inl e) g) = numpy_load g"
  "numpy_empty (import_mpi (Inl e) g) = numpy_empty g"
  "ndarray_getitem (import_mpi (Inl e) g) = ndarray_getitem g"
  "Request_wait (import_mpi (Inl e) g) = Request_wait g"
  "comm (import_mpi (Inl e) g) = None"
  "mpi_enabled (import_mpi (Inl e) g) = False"
  by (simp_all add: import_mpi_def)

lemma inp_getitem_import_mpi:
  "inp_getitem (import_mpi (Inl e) g) w inp i j = inp_getitem g w inp i j"
  by (simp add: inp_getitem_def py_getitem_def import_mpi_failed_fields
      split: sum.splits pyval.splits)

lemma py_wait_import_mpi: "py_wait (import_mpi (Inl e) g) w v = py_wait g w v"
  by (simp add: py_wait_def import_mpi_failed_fields split: pyval.splits)

lemma MPIRecv_perform_no_comm:
  assumes "comm g = None"
  shows "fst (MPIRecv_perform g self inp out w) \<noteq> None"
    and "fst (snd (MPIRecv_perform g self inp out w)) = out"
    and "numpy_empty g w (MPIRecv.shape self) (MPIRecv.dtype self) = Inr (data, w1) \<Longrightarrow>
         MPIRecv_perform g self inp out w = (Some NameError, out, w1)"
  using assms by (auto simp: MPIRecv_perform_def split: sum.splits)

lemma MPISend_perform_no_comm:
  assumes "comm g = None"
  shows "fst (MPISend_perform g self inp out w) \<noteq> None"
    and "fst (snd (MPISend_perform g self inp out w)) = out"
    and "inp_getitem g w inp 0 0 = Inr v \<Longrightarrow>
         MPISend_perform g self inp out w = (Some NameError, out, w)"
  using assms by (auto simp: MPISend_perform_def split: sum.splits)

text \<open>
  C8, as the code has it. When the import of the MPI binding fails at module start-up,
  \<^verbatim>\<open>mpi_enabled\<close> is False and the name \<^verbatim>\<open>comm\<close> is unbound; nothing reads the flag.
  The compute steps of Receive and Send never complete and leave the output storage as
  it was: they raise NameError where they look \<^verbatim>\<open>comm\<close> up, unless an earlier statement
  of theirs raises. Constructing a Receive node, the two wait steps and the loader do
  not read \<^verbatim>\<open>comm\<close>: they behave as they do with the transport available.
\<close>

theorem mpi_unavailable:
  "mpi_enabled (import_mpi (Inl e) g) = False
   \<and> comm (import_mpi (Inl e) g) = None
   \<and> fst (MPIRecv_perform (import_mpi (Inl e) g) r inp out w) \<noteq> None
   \<and> fst (snd (MPIRecv_perform (import_mpi (Inl e) g) r inp out w)) = out
   \<and> (numpy_empty g w (MPIRecv.shape r) (MPIRecv.dtype r) = Inr (data, w1) \<longrightarrow>
        MPIRecv_perform (import_mpi (Inl e) g) r inp out w = (Some NameError, out, w1))
   \<and> fst (MPISend_perform (import_mpi (Inl e) g) s inp out w) \<noteq> None
   \<and> fst (snd (MPISend_perform (import_mpi (Inl e) g) s inp out w)) = out
   \<and> (inp_getitem g w inp 0 0 = Inr v \<longrightarrow>
        MPISend_perform (import_mpi (Inl e) g) s inp out w = (Some NameError, out, w))
   \<and> MPIRecv_init (import_mpi (Inl e) g) rk tg d sh = MPIRecv_init g rk tg d sh
   \<and> MPIRecvWait_perform (import_mpi (Inl e) g) inp out w = MPIRecvWait_perform g inp out w
   \<and> MPISendWait_perform (import_mpi (Inl e) g) inp out w = MPISendWait_perform g inp out w
   \<and> LoadFromDisk_init (import_mpi (Inl e) g) d b m = LoadFromDisk_init g d b m
   \<and> LoadFromDisk_perform (import_mpi (Inl e) g) l inp out w = LoadFromDisk_perform g l inp out w"
proof -
  let ?g = "import_mpi (Inl e) g"
  have c: "comm ?g = None"
    by (simp add: import_mpi_failed_fields)
  have recv: "numpy_empty g w (MPIRecv.shape r) (MPIRecv.dtype r) = Inr (data, w1) \<longrightarrow>
        MPIRecv_perform ?g r inp out w = (Some NameError, out, w1)"
    using MPIRecv_perform_no_comm(3) [OF c, of w r data w1 inp out]
    by (simp add: import_mpi_failed_fields)
  have send: "inp_getitem g w inp 0 0 = Inr v \<longrightarrow>
        MPISend_perform ?g s inp out w = (Some NameError, out, w)"
    using MPISend_perform_no_comm(3) [OF c, of w inp v s out]
    by (simp add: inp_getitem_import_mpi)
  have init: "MPIRecv_init ?g rk tg d sh = MPIRecv_init g rk tg d sh"
    by (simp add: MPIRecv_init_def import_mpi_failed_fields)
  have rwait: "MPIRecvWait_perform ?g inp out w = MPIRecvWait_perform g inp out w"
    by (simp add: MPIRecvWait_perform_def inp_getitem_import_mpi py_wait_import_mpi
        cong: sum.case_cong)
  have swait: "MPISendWait_perform ?g inp out w = MPISendWait_perform g inp out w"
    by (simp add: MPISendWait_perform_def inp_getitem_import_mpi py_wait_import_mpi
        cong: sum.case_cong)
  have linit: "LoadFromDisk_init ?g d b m = LoadFromDisk_init g d b m"
    by (simp add: LoadFromDisk_init_def import_mpi_failed_fields)
  have lperf: "LoadFromDisk_perform ?g l inp out w = LoadFromDisk_perform g l inp out w"
    by (simp add: LoadFromDisk_perform_def import_mpi_failed_fields
        cong: sum.case_cong pyval.case_cong if_cong)
  show ?thesis
    using c recv send init rwait swait linit lperf
      MPIRecv_perform_no_comm(1,2) [OF c, of r inp out w]
      MPISend_perform_no_comm(1,2) [OF c, of s inp out w]
    by (simp add: import_mpi_failed_fields)
qed

theorem mpi_unavailable_witness:
  "numpy_empty sim_env0 sim_world0 [3] (Dtype ''int64'') =
     Inr (\<lparr>ndarray.dtype = Dtype ''int64'', ndarray.shape = [3], addr = 1\<rparr>,
          sim_world0\<lparr>buffers := [[1, 2, 3], [0, 0, 0]]\<rparr>)
   \<and> MPIRecv_perform sim_env_no_mpi
        \<lparr>MPIRecv.rank = 0, MPIRecv.tag = 7, MPIRecv.shape = [3], MPIRecv.dtype = Dtype ''int64'',
         MPIRecv.broadcastable = [False], MPIRecv.info = (0, 7, ''int64'', [3])\<rparr>
        [] [[PyNone], [PyNone]] sim_world0
       = (Some NameError, [[PyNone], [PyNone]], sim_world0\<lparr>buffers := [[1, 2, 3], [0, 0, 0]]\<rparr>)
   \<and> inp_getitem sim_env0 sim_world0 [PyList [NDArray tensor123]] 0 0 = Inr (NDArray tensor123)
   \<and> MPISend_perform sim_env_no_mpi (MPISend_init 1 7) [PyList [NDArray tensor123]] [[PyNone]]
        sim_world0
       = (Some NameError, [[PyNone]], sim_world0)"
proof -
  let ?r = "\<lparr>MPIRecv.rank = 0, MPIRecv.tag = 7, MPIRecv.shape = [3], MPIRecv.dtype = Dtype ''int64'',
         MPIRecv.broadcastable = [False], MPIRecv.info = (0, 7, ''int64'', [3])\<rparr>"
  let ?a = "\<lparr>ndarray.dtype = Dtype ''int64'', ndarray.shape = [3], addr = 1\<rparr>"
  let ?w = "sim_world0\<lparr>buffers := [[1, 2, 3], [0, 0, 0]]\<rparr>"
  have e: "numpy_empty sim_env0 sim_world0 (MPIRecv.shape ?r) (MPIRecv.dtype ?r) = Inr (?a, ?w)"
    by (simp add: sim_env0_def sim_numpy_empty_def sim_world0_def numeral_3_eq_3)
  have i: "inp_getitem sim_env0 sim_world0 [PyList [NDArray tensor123]] 0 0 = Inr (NDArray tensor123)"
    by (simp add: inp_getitem_def py_getitem_def list_getitem_def)
  show ?thesis
    using e i
      mpi_unavailable
        [of "OtherError ''ImportError''" sim_env0 ?r "[]" "[[PyNone], [PyNone]]" sim_world0 ?a ?w]
      mpi_unavailable
        [of "OtherError ''ImportError''" sim_env0 _ "[PyList [NDArray tensor123]]" "[[PyNone]]"
            sim_world0 _ _ "MPISend_init 1 7" "NDArray tensor123"]
    by (simp add: sim_env_no_mpi_def)
qed

text \<open>
  C8 as stated fails. With the MPI binding missing, constructing a Receive node and a
  Send node succeeds and comparing them works; the compute step of the Receive node
  fails, at execution, with NameError, which is not the configuration error of the
  module (the ValueError of \<^verbatim>\<open>LoadFromDisk.__init__\<close>).
\<close>

theorem mpi_unavailable_counterexample:
  "mpi_enabled sim_env_no_mpi = False
   \<and> MPIRecv_init sim_env_no_mpi 0 7 ''int64'' [3] =
       Inr \<lparr>MPIRecv.rank = 0, MPIRecv.tag = 7, MPIRecv.shape = [3],
            MPIRecv.dtype = Dtype ''int64'', MPIRecv.broadcastable = [False],
            MPIRecv.info = (0, 7, ''int64'', [3])\<rparr>
   \<and> MPISend_eq (MPISend_init 1 7) (OpMPISend (MPISend_init 1 7))
   \<and> MPIRecvWait_eq OpMPIRecvWait OpMPIRecvWait
   \<and> fst (MPIRecv_perform sim_env_no_mpi
        \<lparr>MPIRecv.rank = 0, MPIRecv.tag = 7, MPIRecv.shape = [3],
         MPIRecv.dtype = Dtype ''int64'', MPIRecv.broadcastable = [False],
         MPIRecv.info = (0, 7, ''int64'', [3])\<rparr>
        [] [[PyNone], [PyNone]] sim_world0) = Some NameError
   \<and> NameError \<noteq> ValueError"
  by (simp add: sim_env_no_mpi_fields MPIRecv_init_def sim_numpy_dtype_def MPISend_eq_def
      MPISend_init_def MPIRecvWait_eq_def MPIRecv_perform_def sim_numpy_empty_def)

section \<open>The transfer scenario\<close>

text \<open>
  The engine hands a compute step its inputs as values and its outputs as one cell per
  output, as \<^verbatim>\<open>LoadFromDisk.perform\<close> uses them (\<^verbatim>\<open>path = inp[0]\<close>, \<^verbatim>\<open>out[0][0] = result\<close>).
  The step of the Receive node writes the request and the buffer into the first cell
  only, at slots 0 and 1: no other cell is ever written, and with the two one-slot
  cells of its two outputs the step never completes.
\<close>

lemma storage_setitem_tl: "storage_setitem out 0 j x = Inr out' \<Longrightarrow> tl out' = tl out"
  by (cases out) (auto simp: storage_setitem_def list_getitem_def split: sum.splits)

lemma storage_setitem_one_slot: "storage_setitem ([a] # cells) 0 (Suc 0) x = Inl IndexError"
  by (simp add: storage_setitem_def list_getitem_def list_setitem_def)

lemma MPIRecv_perform_first_cell_only:
  "tl (fst (snd (MPIRecv_perform g self inp out w))) = tl out"
  by (auto simp: MPIRecv_perform_def split: sum.splits option.splits
      dest!: storage_setitem_tl)

lemma MPIRecv_perform_one_slot_cells:
  "fst (MPIRecv_perform g self inp [[a], [b]] w) \<noteq> None"
  by (auto simp: MPIRecv_perform_def storage_setitem_first storage_setitem_one_slot
      split: sum.splits option.splits)

text \<open>
  A wait step whose input is the request itself indexes the request, which is not
  subscriptable.
\<close>

lemma Wait_perform_request_value:
  "MPISendWait_perform g (Request r # rest) out w = (Some TypeError, out, w)"
  "MPIRecvWait_perform g (Request r # rest) out w = (Some TypeError, out, w)"
  by (simp_all add: MPISendWait_perform_def MPIRecvWait_perform_def inp_getitem_def
      list_getitem_def py_getitem_def)

text \<open>
  C1, the scenario run on the code. Process B (rank 1) constructs the Receive node for
  peer 0, tag 7, \<^verbatim>\<open>int64\<close> and shape \<^verbatim>\<open>(False,)\<close>, which numpy reads as \<^verbatim>\<open>(0,)\<close>; its
  compute step posts the receive, writes the request, and raises IndexError at
  \<^verbatim>\<open>out[0][1] = data\<close>, the cell of the second output still empty. Process A (rank 0)
  runs the Send step on the tensor \<^verbatim>\<open>[1,2,3]\<close>: \<^verbatim>\<open>inp[0][0]\<close> is its first element, and
  that is what is sent. A's wait step then raises TypeError on \<^verbatim>\<open>inp[0][0]\<close>.
  Neither wait yields a result.
\<close>

theorem transfer_scenario_raises:
  "MPIRecv_init sim_env 0 7 ''int64'' [0] =
     Inr \<lparr>MPIRecv.rank = 0, MPIRecv.tag = 7, MPIRecv.shape = [0],
          MPIRecv.dtype = Dtype ''int64'', MPIRecv.broadcastable = [False],
          MPIRecv.info = (0, 7, ''int64'', [0])\<rparr>
   \<and> MPIRecv_perform sim_env
        \<lparr>MPIRecv.rank = 0, MPIRecv.tag = 7, MPIRecv.shape = [0],
         MPIRecv.dtype = Dtype ''int64'', MPIRecv.broadcastable = [False],
         MPIRecv.info = (0, 7, ''int64'', [0])\<rparr>
        [] [[PyNone], [PyNone]] sim_world0
       = (Some IndexError, [[Request 0], [PyNone]],
          sim_world0\<lparr>buffers := [[1, 2, 3], []],
            posted := [(''recv'', 0, 7,
              NDArray \<lparr>ndarray.dtype = Dtype ''int64'', ndarray.shape = [0], addr = 1\<rparr>)]\<rparr>)
   \<and> MPISend_perform sim_env (MPISend_init 1 7) [NDArray tensor123] [[PyNone]] sim_world0
       = (None, [[Request 0]], sim_world0\<lparr>posted := [(''send'', 1, 7, PyInt 1)]\<rparr>)
   \<and> MPISendWait_perform sim_env [Request 0] [[PyNone]]
        (sim_world0\<lparr>posted := [(''send'', 1, 7, PyInt 1)]\<rparr>)
       = (Some TypeError, [[PyNone]], sim_world0\<lparr>posted := [(''send'', 1, 7, PyInt 1)]\<rparr>)"
proof -
  have init: "MPIRecv_init sim_env 0 7 ''int64'' [0] =
     Inr \<lparr>MPIRecv.rank = 0, MPIRecv.tag = 7, MPIRecv.shape = [0],
          MPIRecv.dtype = Dtype ''int64'', MPIRecv.broadcastable = [False],
          MPIRecv.info = (0, 7, ''int64'', [0])\<rparr>"
    by (simp add: MPIRecv_init_def sim_env_fields sim_numpy_dtype_def)
  have recv: "MPIRecv_perform sim_env
        \<lparr>MPIRecv.rank = 0, MPIRecv.tag = 7, MPIRecv.shape = [0],
         MPIRecv.dtype = Dtype ''int64'', MPIRecv.broadcastable = [False],
         MPIRecv.info = (0, 7, ''int64'', [0])\<rparr>
        [] [[PyNone], [PyNone]] sim_world0
       = (Some IndexError, [[Request 0], [PyNone]],
          sim_world0\<lparr>buffers := [[1, 2, 3], []],
            posted := [(''recv'', 0, 7,
              NDArray \<lparr>ndarray.dtype = Dtype ''int64'', ndarray.shape = [0], addr = 1\<rparr>)]\<rparr>)"
    by (simp add: MPIRecv_perform_def sim_env_fields sim_numpy_empty_def sim_comm_def
        sim_post_def sim_world0_def storage_setitem_first storage_setitem_one_slot)
  have send: "MPISend_perform sim_env (MPISend_init 1 7) [NDArray tensor123] [[PyNone]] sim_world0
       = (None, [[Request 0]], sim_world0\<lparr>posted := [(''send'', 1, 7, PyInt 1)]\<rparr>)"
    by (simp add: MPISend_perform_def MPISend_init_def inp_getitem_def py_getitem_def
        list_getitem_def sim_env_fields sim_ndarray_getitem_def sim_comm_def sim_post_def
        sim_world0_def tensor123_def storage_setitem_first)
  show ?thesis
    using init recv send by (simp add: Wait_perform_request_value)
qed

text \<open>
  Beyond the scenario: for every environment, node and world, the compute step of a
  Receive node handed the two one-slot cells of its two outputs raises, and on any
  storage it leaves every cell but the first as it was.
\<close>

theorem MPIRecv_perform_engine_storage:
  "fst (MPIRecv_perform g self inp [[a], [b]] w) \<noteq> None
   \<and> tl (fst (snd (MPIRecv_perform g self inp out w))) = tl out"
  using MPIRecv_perform_one_slot_cells [of g self inp a b w]
    MPIRecv_perform_first_cell_only [of g self inp out w]
  by simp

text \<open>
  For every environment and world, both wait steps raise TypeError when their first
  input is a request, and write nothing.
\<close>

theorem Wait_perform_on_request:
  "MPISendWait_perform g (Request r # rest) out w = (Some TypeError, out, w)
   \<and> MPIRecvWait_perform g (Request r # rest) out w = (Some TypeError, out, w)"
  by (simp add: Wait_perform_request_value)

end
